theory Spec2Isabelle
  imports Complex_Main
begin

section \<open>JavaScript values used by the sales forecasting component\<close>

text \<open>
  This theory models the data pipeline of the React component \<open>SalesForecasting\<close>: the
  encoder \<^verbatim>\<open>preprocessData\<close> and the training and forecast loop \<^verbatim>\<open>trainAndPredict\<close>. The
  repository holds two revisions of the component, which differ in logging and chart
  styling only; the pipeline is the same in both. Records are taken to have string
  fields, as the data model of the specification says. Strings are lists of ASCII
  characters.
\<close>

text \<open>
  The component \<^verbatim>\<open>src/SalesForecasting.js\<close> compares values with \<^verbatim>\<open>null\<close> and
  \<^verbatim>\<open>undefined\<close> by strict (in)equality. Both are kept apart from each other and from
  ordinary values.
\<close>

datatype 'a jsval = Null | Undefined | Val 'a

text \<open>
  A JavaScript number as far as the component observes it: \<^verbatim>\<open>NaN\<close>, the two infinities
  and the finite numbers. Finite numbers are exact rationals: rounding to a 64-bit
  float is not modelled, and \<^verbatim>\<open>-0\<close> is identified with \<^verbatim>\<open>0\<close> (both are falsy).
\<close>

datatype jsnum = NaN | PosInf | NegInf | Fin rat

text \<open>Reading \<^verbatim>\<open>xs[i]\<close>: an index outside the array yields \<^verbatim>\<open>undefined\<close>.\<close>

definition array_get :: "'a jsval list \<Rightarrow> nat \<Rightarrow> 'a jsval" where
  "array_get xs i = (if i < length xs then xs ! i else Undefined)"

text \<open>
  \<^verbatim>\<open>xs.map((x, i) => f(x, i))\<close> and \<^verbatim>\<open>xs.filter((x, i) => p(x, i))\<close>: the callback
  receives the element and its index.
\<close>

definition map_index :: "('a \<Rightarrow> nat \<Rightarrow> 'b) \<Rightarrow> 'a list \<Rightarrow> 'b list" where
  "map_index f xs = map (\<lambda>(x, i). f x i) (zip xs [0..<length xs])"

definition filter_index :: "('a \<Rightarrow> nat \<Rightarrow> bool) \<Rightarrow> 'a list \<Rightarrow> 'a list" where
  "filter_index p xs = map fst (filter (\<lambda>(x, i). p x i) (zip xs [0..<length xs]))"

subsection \<open>Sets of strings in insertion order\<close>

text \<open>
  \<^verbatim>\<open>[...new Set(xs)]\<close>: the set constructor adds the elements from left to right, an
  element already present is not added again, and spreading lists the elements in
  the order in which they were added.
\<close>

definition Set_add :: "'a list \<Rightarrow> 'a \<Rightarrow> 'a list" where
  "Set_add s x = (if x \<in> set s then s else s @ [x])"

definition new_Set :: "'a list \<Rightarrow> 'a list" where
  "new_Set xs = foldl Set_add [] xs"

subsection \<open>Plain objects with string keys\<close>

text \<open>
  An object is the list of its own properties in creation order. Writing a property
  that exists keeps its place; a new property goes to the end.
  \<^verbatim>\<open>Object.fromEntries\<close> writes the entries from left to right.
  Reading goes through the own properties only: every key the component reads is an own
  property of the object (the encoder reads the descriptions of the batch the mapping was
  built from, the forecaster the keys of \<^verbatim>\<open>Object.keys\<close>), and an own property hides an
  inherited one.
\<close>

type_synonym 'v jsobject = "(string \<times> 'v) list"

fun obj_set :: "'v jsobject \<Rightarrow> string \<Rightarrow> 'v \<Rightarrow> 'v jsobject" where
  "obj_set [] k v = [(k, v)]"
| "obj_set ((k', v') # ps) k v = (if k' = k then (k, v) # ps else (k', v') # obj_set ps k v)"

definition Object_fromEntries :: "(string \<times> 'v) list \<Rightarrow> 'v jsobject" where
  "Object_fromEntries es = foldl (\<lambda>ob (k, v). obj_set ob k v) [] es"

definition obj_get :: "'v jsobject \<Rightarrow> string \<Rightarrow> 'v jsval" where
  "obj_get ob k = (case map_of ob k of Some v \<Rightarrow> Val v | None \<Rightarrow> Undefined)"

text \<open>
  \<^verbatim>\<open>Object.keys\<close> lists the own keys that are array indices first, in ascending numeric
  order, and then the other keys in creation order. An array index is the canonical
  decimal form of an integer from 0 to \<open>2^32 - 2\<close>.
\<close>

definition is_digit :: "char \<Rightarrow> bool" where
  "is_digit c = (c \<in> set ''0123456789'')"

definition digit_val :: "char \<Rightarrow> int" where
  "digit_val c = of_char c - 48"

definition digits_val :: "string \<Rightarrow> int" where
  "digits_val ds = foldl (\<lambda>n c. 10 * n + digit_val c) 0 ds"

definition is_array_index :: "string \<Rightarrow> bool" where
  "is_array_index k =
     (k \<noteq> [] \<and> list_all is_digit k \<and> (if hd k = CHR ''0'' then k = ''0'' else True) \<and>
      length k \<le> 10 \<and> digits_val k \<le> 4294967294)"

definition Object_keys :: "'v jsobject \<Rightarrow> string list" where
  "Object_keys ob =
     sort_key digits_val (filter is_array_index (map fst ob)) @
     filter (\<lambda>k. \<not> is_array_index k) (map fst ob)"

section \<open>The host: dates, number parsing and the tensor library\<close>

text \<open>
  What the browser and the tensor library compute is a parameter of the model.
  \<^item> \<open>Date_getMonth s\<close> is \<^verbatim>\<open>new Date(s)\<close> as the component observes it: \<open>None\<close> for an
    invalid date (\<^verbatim>\<open>isNaN(date)\<close>), otherwise \<^verbatim>\<open>date.getMonth()\<close>.
  \<^item> \<open>parseFloat s\<close> is the global \<^verbatim>\<open>parseFloat\<close>.
  \<^item> \<open>model_fit x y\<close> is building the network and awaiting \<^verbatim>\<open>model.fit(xs, ys)\<close> on
    the tensors of \<open>x\<close> and \<open>y\<close>: the trained model, or \<open>None\<close> when the promise is
    rejected.
  \<^item> \<open>model_predict m x\<close> is the number read from \<^verbatim>\<open>model.predict(x).dataSync()[0]\<close>.
\<close>

record 'm host =
  Date_getMonth :: "string \<Rightarrow> nat option"
  parseFloat :: "string \<Rightarrow> jsnum"
  model_fit :: "nat jsval list jsval list \<Rightarrow> jsnum list \<Rightarrow> 'm option"
  model_predict :: "'m \<Rightarrow> nat jsval list list \<Rightarrow> jsnum"

subsection \<open>A reference host\<close>

text \<open>
  The reference host parses the date-only ISO form \<^verbatim>\<open>YYYY-MM-DD\<close> and nothing else, and
  its local time is UTC, so that the month of a valid date is the month written in it.
\<close>

definition iso_date_month :: "string \<Rightarrow> nat option" where
  "iso_date_month s =
     (if length s = 10 \<and> list_all is_digit (take 4 s) \<and> s ! 4 = CHR ''-'' \<and>
         list_all is_digit (take 2 (drop 5 s)) \<and> s ! 7 = CHR ''-'' \<and>
         list_all is_digit (drop 8 s) \<and>
         1 \<le> digits_val (take 2 (drop 5 s)) \<and> digits_val (take 2 (drop 5 s)) \<le> 12 \<and>
         1 \<le> digits_val (drop 8 s) \<and> digits_val (drop 8 s) \<le> 31
      then Some (nat (digits_val (take 2 (drop 5 s)) - 1)) else None)"

text \<open>
  \<^verbatim>\<open>parseFloat\<close> skips leading (ASCII) white space and reads the longest prefix that is a
  decimal literal: an optional sign, then \<^verbatim>\<open>Infinity\<close> or digits with an optional
  fraction and an optional exponent. Without such a prefix the result is \<^verbatim>\<open>NaN\<close>.
\<close>

definition is_space :: "char \<Rightarrow> bool" where
  "is_space c = (of_char c \<in> {9, 10, 11, 12, 13, 32 :: nat})"

definition scale10 :: "rat \<Rightarrow> bool \<Rightarrow> nat \<Rightarrow> rat" where
  "scale10 m neg e = (if neg then m / 10 ^ e else m * 10 ^ e)"

definition exponent_part :: "string \<Rightarrow> (bool \<times> nat)" where
  "exponent_part s =
     (case s of
        [] \<Rightarrow> (False, 0)
      | c # t \<Rightarrow>
          if c = CHR ''e'' \<or> c = CHR ''E'' then
            (case t of
               [] \<Rightarrow> (False, 0)
             | d # u \<Rightarrow>
                 if d = CHR ''-'' then (True, nat (digits_val (takeWhile is_digit u)))
                 else if d = CHR ''+'' then (False, nat (digits_val (takeWhile is_digit u)))
                 else (False, nat (digits_val (takeWhile is_digit t))))
          else (False, 0))"

definition unsigned_literal :: "string \<Rightarrow> jsnum" where
  "unsigned_literal s =
     (if take 8 s = ''Infinity'' then PosInf
      else
        let ip = takeWhile is_digit s;
            r = dropWhile is_digit s;
            fp = (case r of [] \<Rightarrow> [] | c # t \<Rightarrow> if c = CHR ''.'' then takeWhile is_digit t else []);
            r' = (case r of [] \<Rightarrow> [] | c # t \<Rightarrow> if c = CHR ''.'' then dropWhile is_digit t else r)
        in if ip = [] \<and> fp = [] then NaN
           else
             let (neg, e) = exponent_part r'
             in Fin (scale10 (of_int (digits_val (ip @ fp)) / 10 ^ length fp) neg e))"

definition negate :: "jsnum \<Rightarrow> jsnum" where
  "negate x = (case x of NaN \<Rightarrow> NaN | PosInf \<Rightarrow> NegInf | NegInf \<Rightarrow> PosInf | Fin q \<Rightarrow> Fin (- q))"

definition js_parseFloat :: "string \<Rightarrow> jsnum" where
  "js_parseFloat s =
     (case dropWhile is_space s of
        [] \<Rightarrow> NaN
      | c # t \<Rightarrow>
          if c = CHR ''-'' then negate (unsigned_literal t)
          else if c = CHR ''+'' then unsigned_literal t
          else unsigned_literal (c # t))"

text \<open>
  The reference host's network is the constant predictor: training always succeeds and
  every prediction is 0.
\<close>

definition ref_host :: "unit host" where
  "ref_host =
     \<lparr> Date_getMonth = iso_date_month,
       parseFloat = js_parseFloat,
       model_fit = (\<lambda>x y. Some ()),
       model_predict = (\<lambda>m x. Fin 0) \<rparr>"

section \<open>The feature encoder\<close>

record SalesRecord =
  sales_date :: string
  product_description :: string
  quantity_sold :: string

record encoded =
  inputs :: "nat jsval list jsval list"
  outputs :: "jsnum list"
  productMapping :: "nat jsobject"

text \<open>\<^verbatim>\<open>x || 0\<close> on a number: \<^verbatim>\<open>NaN\<close> and zero are falsy.\<close>

definition or_zero :: "jsnum \<Rightarrow> jsnum" where
  "or_zero x = (if x = NaN \<or> x = Fin 0 then Fin 0 else x)"

text \<open>
  \<open>preprocessData\<close> of the source, with the component's \<^verbatim>\<open>data\<close> property as an
  argument (\<open>None\<close> is an undefined property). The intermediate arrays keep the source's
  names.
\<close>

definition salesDates :: "'m host \<Rightarrow> SalesRecord list \<Rightarrow> nat jsval list" where
  "salesDates h data =
     map (\<lambda>row. case Date_getMonth h (sales_date row) of
                  Some m \<Rightarrow> Val (m + 1)
                | None \<Rightarrow> Null) data"

definition products :: "SalesRecord list \<Rightarrow> string list" where
  "products data = new_Set (map product_description data)"

definition build_productMapping :: "SalesRecord list \<Rightarrow> nat jsobject" where
  "build_productMapping data = Object_fromEntries (map_index (\<lambda>p i. (p, i)) (products data))"

definition quantities :: "'m host \<Rightarrow> SalesRecord list \<Rightarrow> jsnum list" where
  "quantities h data = map (\<lambda>row. or_zero (parseFloat h (quantity_sold row))) data"

definition mapped_inputs :: "'m host \<Rightarrow> SalesRecord list \<Rightarrow> nat jsval list jsval list" where
  "mapped_inputs h data =
     map_index (\<lambda>row i.
        if array_get (salesDates h data) i \<noteq> Null \<and>
           obj_get (build_productMapping data) (product_description row) \<noteq> Undefined
        then Val [array_get (salesDates h data) i,
                  obj_get (build_productMapping data) (product_description row)]
        else Null) data"

definition preprocessData :: "'m host \<Rightarrow> SalesRecord list option \<Rightarrow> encoded" where
  "preprocessData h d =
     (case d of
        None \<Rightarrow> \<lparr> inputs = [], outputs = [], productMapping = [] \<rparr>
      | Some data \<Rightarrow>
          if length data = 0 then \<lparr> inputs = [], outputs = [], productMapping = [] \<rparr>
          else
            let inputs = filter (\<lambda>input. input \<noteq> Null) (mapped_inputs h data);
                outputs = filter_index (\<lambda>q i. array_get inputs i \<noteq> Null) (quantities h data)
            in \<lparr> inputs = inputs, outputs = outputs,
                 productMapping = build_productMapping data \<rparr>)"

section \<open>Training and forecasting\<close>

text \<open>
  The tensor library owns the numeric buffers. The state records which buffers are
  allocated and not yet released, and the library calls in the order they were made.
  \<^verbatim>\<open>tf.tensor2d\<close> allocates a buffer, \<^verbatim>\<open>model.predict\<close> allocates the buffer of its
  result and does not release its argument, \<^verbatim>\<open>dispose\<close> releases the buffer it is
  called on.
\<close>

datatype tf_call =
    Tensor2d nat
  | Fit nat nat
  | Predict nat nat
  | DataSync nat
  | Dispose nat

record tf_state =
  next_id :: nat
  live :: "nat list"
  calls :: "tf_call list"

definition tf_init :: tf_state where
  "tf_init = \<lparr> next_id = 0, live = [], calls = [] \<rparr>"

definition tf_tensor2d :: "tf_state \<Rightarrow> nat \<times> tf_state" where
  "tf_tensor2d s =
     (next_id s,
      s\<lparr> next_id := Suc (next_id s), live := live s @ [next_id s],
         calls := calls s @ [Tensor2d (next_id s)] \<rparr>)"

definition tf_fit :: "nat \<Rightarrow> nat \<Rightarrow> tf_state \<Rightarrow> tf_state" where
  "tf_fit x y s = s\<lparr> calls := calls s @ [Fit x y] \<rparr>"

definition tf_predict :: "nat \<Rightarrow> tf_state \<Rightarrow> nat \<times> tf_state" where
  "tf_predict x s =
     (next_id s,
      s\<lparr> next_id := Suc (next_id s), live := live s @ [next_id s],
         calls := calls s @ [Predict x (next_id s)] \<rparr>)"

definition tf_dataSync :: "nat \<Rightarrow> tf_state \<Rightarrow> tf_state" where
  "tf_dataSync t s = s\<lparr> calls := calls s @ [DataSync t] \<rparr>"

definition tf_dispose :: "nat \<Rightarrow> tf_state \<Rightarrow> tf_state" where
  "tf_dispose t s = s\<lparr> live := removeAll t (live s), calls := calls s @ [Dispose t] \<rparr>"

text \<open>
  One entry of \<^verbatim>\<open>predictions\<close>. The source's field \<^verbatim>\<open>sales_date\<close> (the forecast month) is
  \<open>sales_month\<close> here, since \<open>sales_date\<close> is the field of the input records.
\<close>

record ForecastPoint =
  product :: string
  sales_month :: nat
  predicted :: jsnum

text \<open>The body of the inner \<^verbatim>\<open>forEach\<close>: one prediction for month \<open>i\<close> and one product.\<close>

definition predict_one ::
  "'m host \<Rightarrow> 'm \<Rightarrow> nat jsobject \<Rightarrow> nat \<Rightarrow> ForecastPoint list \<times> tf_state \<Rightarrow> string \<Rightarrow>
   ForecastPoint list \<times> tf_state" where
  "predict_one h m pm i acc p =
     (let (predictions, s) = acc;
          (x, s1) = tf_tensor2d s;
          (predictionTensor, s2) = tf_predict x s1;
          predictedValue = model_predict h m [[Val i, obj_get pm p]];
          s3 = tf_dataSync predictionTensor s2;
          s4 = tf_dispose predictionTensor s3
      in (predictions @ [\<lparr> product = p, sales_month = i, predicted = predictedValue \<rparr>], s4))"

text \<open>The loop \<^verbatim>\<open>for (let i = 1; i <= 6; i++)\<close> over the keys of the product mapping.\<close>

function forecast_from ::
  "'m host \<Rightarrow> 'm \<Rightarrow> nat jsobject \<Rightarrow> nat \<Rightarrow> ForecastPoint list \<times> tf_state \<Rightarrow>
   ForecastPoint list \<times> tf_state" where
  "forecast_from h m pm i acc =
     (if i \<le> 6
      then forecast_from h m pm (i + 1) (foldl (predict_one h m pm i) acc (Object_keys pm))
      else acc)"
  by pat_completeness auto
termination
  by (relation "measure (\<lambda>(h, m, pm, i, acc). 7 - i)") auto

definition forecast ::
  "'m host \<Rightarrow> 'm \<Rightarrow> nat jsobject \<Rightarrow> tf_state \<Rightarrow> ForecastPoint list \<times> tf_state" where
  "forecast h m pm s = forecast_from h m pm 1 ([], s)"

text \<open>
  What one click on the button does: \<open>Halted\<close> is the early return after the error
  message, \<open>Rejected\<close> a rejected training promise, \<open>Visualized ps\<close> the call of
  \<^verbatim>\<open>visualizeResults\<close> on the predictions \<open>ps\<close>.
\<close>

datatype outcome = Halted | Rejected | Visualized "ForecastPoint list"

definition trainAndPredict ::
  "'m host \<Rightarrow> SalesRecord list option \<Rightarrow> outcome \<times> tf_state" where
  "trainAndPredict h d =
     (let enc = preprocessData h d in
      if length (inputs enc) = 0 \<or> length (outputs enc) = 0 then (Halted, tf_init)
      else
        let (xs, s1) = tf_tensor2d tf_init;
            (ys, s2) = tf_tensor2d s1;
            s3 = tf_fit xs ys s2
        in case model_fit h (inputs enc) (outputs enc) of
             None \<Rightarrow> (Rejected, s3)
           | Some m \<Rightarrow>
               let (predictions, s4) = forecast h m (productMapping enc) s3
               in (Visualized predictions, s4))"

section \<open>Definitions used to state the properties\<close>

text \<open>A sales record written as its three fields.\<close>

abbreviation sale :: "string \<Rightarrow> string \<Rightarrow> string \<Rightarrow> SalesRecord" where
  "sale d p q \<equiv> \<lparr> sales_date = d, product_description = p, quantity_sold = q \<rparr>"

text \<open>
  The body of the callback of \<open>mapped_inputs\<close> for one record, with the month read from the
  record instead of from \<open>salesDates\<close> by index (lemma \<open>mapped_inputs_map\<close> shows that
  both agree).
\<close>

definition encode_row :: "'m host \<Rightarrow> nat jsobject \<Rightarrow> SalesRecord \<Rightarrow> nat jsval list jsval" where
  "encode_row h pm row =
     (case Date_getMonth h (sales_date row) of
        None \<Rightarrow> Null
      | Some m \<Rightarrow>
          if obj_get pm (product_description row) \<noteq> Undefined
          then Val [Val (m + 1), obj_get pm (product_description row)] else Null)"

text \<open>
  The inclusion rule in the specification's words: a record contributes the feature vector
  of its month and its product index when both are defined, and nothing otherwise.
\<close>

definition spec_contribution ::
  "'m host \<Rightarrow> nat jsobject \<Rightarrow> SalesRecord \<Rightarrow> nat jsval list jsval option" where
  "spec_contribution h pm row =
     (case Date_getMonth h (sales_date row) of
        None \<Rightarrow> None
      | Some m \<Rightarrow>
          (case map_of pm (product_description row) of
             None \<Rightarrow> None
           | Some j \<Rightarrow> Some (Val [Val (m + 1), Val j])))"

text \<open>The inclusion rule that looks at the date only.\<close>

definition spec_dated_feature ::
  "'m host \<Rightarrow> nat jsobject \<Rightarrow> SalesRecord \<Rightarrow> nat jsval list jsval option" where
  "spec_dated_feature h pm row =
     (case Date_getMonth h (sales_date row) of
        None \<Rightarrow> None
      | Some m \<Rightarrow> Some (Val [Val (m + 1), obj_get pm (product_description row)]))"

text \<open>
  The forecast order in the specification's words: months 1 to 6 ascending, and within a
  month the products in the order of the list \<open>ks\<close>.
\<close>

definition forecast_grid :: "string list \<Rightarrow> (nat \<times> string) list" where
  "forecast_grid ks = concat (map (\<lambda>i. map (\<lambda>p. (i, p)) ks) [1, 2, 3, 4, 5, 6])"

text \<open>The entry that one iteration of the forecast loop pushes.\<close>

definition forecast_point :: "'m host \<Rightarrow> 'm \<Rightarrow> nat jsobject \<Rightarrow> nat \<Rightarrow> string \<Rightarrow> ForecastPoint" where
  "forecast_point h m pm i p =
     \<lparr> product = p, sales_month = i, predicted = model_predict h m [[Val i, obj_get pm p]] \<rparr>"

section \<open>Arrays, sets and objects\<close>

lemma length_map_index: "length (map_index f xs) = length xs"
  by (simp add: map_index_def)

lemma nth_map_index: "i < length xs \<Longrightarrow> map_index f xs ! i = f (xs ! i) i"
  by (simp add: map_index_def)

lemma map_index_cong_map:
  assumes "\<And>i. i < length xs \<Longrightarrow> f (xs ! i) i = g (xs ! i)"
  shows "map_index f xs = map g xs"
  by (rule nth_equalityI) (simp_all add: length_map_index nth_map_index assms)

lemma map_index_pair: "map_index (\<lambda>p i. (p, i)) xs = zip xs [0..<length xs]"
  by (rule nth_equalityI) (simp_all add: length_map_index nth_map_index)

lemma filter_index_all:
  assumes "\<And>i. i < length xs \<Longrightarrow> p (xs ! i) i"
  shows "filter_index p xs = xs"
proof -
  have "\<forall>z \<in> set (zip xs [0..<length xs]). (\<lambda>(x, i). p x i) z"
    using assms by (auto simp: set_zip)
  then have "filter (\<lambda>(x, i). p x i) (zip xs [0..<length xs]) = zip xs [0..<length xs]"
    by (simp only: filter_True)
  then show ?thesis
    by (simp add: filter_index_def)
qed

lemma array_get_filter_not_Null: "array_get (filter (\<lambda>x. x \<noteq> Null) ys) i \<noteq> Null"
proof (cases "i < length (filter (\<lambda>x. x \<noteq> Null) ys)")
  case True
  then have "filter (\<lambda>x. x \<noteq> Null) ys ! i \<in> set (filter (\<lambda>x. x \<noteq> Null) ys)"
    by (rule nth_mem)
  then show ?thesis using True by (simp add: array_get_def)
next
  case False
  then show ?thesis by (simp add: array_get_def)
qed

lemma outputs_unfiltered:
  "data \<noteq> [] \<Longrightarrow> outputs (preprocessData h (Some data)) = quantities h data"
  by (simp add: preprocessData_def Let_def filter_index_all array_get_filter_not_Null)

lemma inputs_filtered:
  "inputs (preprocessData h (Some data)) = filter (\<lambda>input. input \<noteq> Null) (mapped_inputs h data)"
  by (cases data) (simp_all add: preprocessData_def Let_def mapped_inputs_def map_index_def)

lemma productMapping_built:
  "productMapping (preprocessData h (Some data)) = build_productMapping data"
  by (cases data)
     (simp_all add: preprocessData_def Let_def build_productMapping_def products_def
        new_Set_def map_index_def Object_fromEntries_def)

lemma Set_fold_props:
  "distinct acc \<Longrightarrow>
   distinct (foldl Set_add acc xs) \<and> set (foldl Set_add acc xs) = set acc \<union> set xs"
  by (induction xs arbitrary: acc) (auto simp: Set_add_def)

lemma distinct_new_Set: "distinct (new_Set xs)"
  using Set_fold_props [of "[]" xs] by (simp add: new_Set_def)

lemma set_new_Set: "set (new_Set xs) = set xs"
  using Set_fold_props [of "[]" xs] by (simp add: new_Set_def)

lemma length_new_Set: "length (new_Set xs) = card (set xs)"
  using distinct_card [OF distinct_new_Set, of xs] by (simp add: set_new_Set)

lemma Set_fold_extends: "\<exists>zs. foldl Set_add acc xs = acc @ zs"
proof (induction xs arbitrary: acc)
  case Nil
  show ?case by simp
next
  case (Cons x xs)
  obtain zs where zs: "foldl Set_add (Set_add acc x) xs = Set_add acc x @ zs"
    using Cons.IH by blast
  have "Set_add acc x = acc \<or> Set_add acc x = acc @ [x]"
    by (simp add: Set_add_def)
  then show ?case
    using zs by (elim disjE) simp_all
qed

lemma new_Set_append: "new_Set (xs @ ys) = foldl Set_add (new_Set xs) ys"
  by (simp add: new_Set_def)

lemma new_Set_first_occurrence:
  assumes "p \<in> set xs"
  shows "\<exists>zs. new_Set xs = new_Set (takeWhile (\<lambda>y. y \<noteq> p) xs) @ p # zs"
proof -
  let ?pre = "takeWhile (\<lambda>y. y \<noteq> p) xs"
  let ?post = "dropWhile (\<lambda>y. y \<noteq> p) xs"
  have post: "?post = p # tl ?post"
    using assms by (metis (mono_tags, lifting) dropWhile_eq_Nil_conv hd_dropWhile list.collapse)
  have notin: "p \<notin> set (new_Set ?pre)"
    by (auto simp: set_new_Set dest: set_takeWhileD)
  have "xs = ?pre @ p # tl ?post"
    using post by (metis takeWhile_dropWhile_id)
  then have "new_Set xs = foldl Set_add (new_Set ?pre) (p # tl ?post)"
    by (metis new_Set_append)
  also have "\<dots> = foldl Set_add (new_Set ?pre @ [p]) (tl ?post)"
    using notin by (simp add: Set_add_def)
  finally obtain zs where "new_Set xs = (new_Set ?pre @ [p]) @ zs"
    using Set_fold_extends [of "new_Set ?pre @ [p]" "tl ?post"] by auto
  then show ?thesis by auto
qed

lemma new_Set_index:
  assumes "p \<in> set xs"
  shows "card (set (takeWhile (\<lambda>y. y \<noteq> p) xs)) < length (new_Set xs) \<and>
         new_Set xs ! card (set (takeWhile (\<lambda>y. y \<noteq> p) xs)) = p"
proof -
  obtain zs where "new_Set xs = new_Set (takeWhile (\<lambda>y. y \<noteq> p) xs) @ p # zs"
    using new_Set_first_occurrence [OF assms] by blast
  then show ?thesis
    by (simp add: length_new_Set [symmetric] nth_append)
qed

lemma obj_set_fresh: "k \<notin> fst ` set ob \<Longrightarrow> obj_set ob k v = ob @ [(k, v)]"
  by (induction ob) auto

lemma fromEntries_fold_distinct:
  "distinct (map fst (ob @ es)) \<Longrightarrow> foldl (\<lambda>ob (k, v). obj_set ob k v) ob es = ob @ es"
proof (induction es arbitrary: ob)
  case Nil
  show ?case by simp
next
  case (Cons e es)
  obtain k v where e: "e = (k, v)" by (cases e)
  have fresh: "k \<notin> fst ` set ob"
    using Cons.prems e by auto
  have "distinct (map fst ((ob @ [(k, v)]) @ es))"
    using Cons.prems e by simp
  then have "foldl (\<lambda>ob (k, v). obj_set ob k v) (ob @ [(k, v)]) es = (ob @ [(k, v)]) @ es"
    by (rule Cons.IH)
  then show ?case
    using fresh e by (simp add: obj_set_fresh)
qed

lemma Object_fromEntries_distinct:
  "distinct (map fst es) \<Longrightarrow> Object_fromEntries es = es"
  using fromEntries_fold_distinct [of "[]" es] by (simp add: Object_fromEntries_def)

lemma build_productMapping_zip:
  "build_productMapping data = zip (products data) [0..<length (products data)]"
  by (simp add: build_productMapping_def map_index_pair Object_fromEntries_distinct
        products_def distinct_new_Set)

lemma keys_productMapping: "map fst (build_productMapping data) = products data"
  by (simp add: build_productMapping_zip)

lemma obj_get_product_nth:
  assumes "i < length (products data)"
  shows "obj_get (build_productMapping data) (products data ! i) = Val i"
proof -
  have "map_of (zip (products data) [0..<length (products data)]) (products data ! i)
        = Some ([0..<length (products data)] ! i)"
    using assms by (intro map_of_zip_nth) (simp_all add: products_def distinct_new_Set)
  then show ?thesis
    using assms by (simp add: obj_get_def build_productMapping_zip)
qed

lemma obj_get_unknown:
  assumes "p \<notin> set (products data)"
  shows "obj_get (build_productMapping data) p = Undefined"
proof -
  have none: "map_of (zip (products data) [0..<length (products data)]) p = None"
    using assms by (simp add: map_of_zip_is_None)
  show ?thesis
    by (simp add: obj_get_def build_productMapping_zip none)
qed

lemma set_products: "set (products data) = product_description ` set data"
  by (simp add: products_def set_new_Set)

lemma obj_get_first_appearance:
  assumes "p \<in> product_description ` set data"
  shows "obj_get (build_productMapping data) p =
         Val (card (set (takeWhile (\<lambda>y. y \<noteq> p) (map product_description data))))"
proof -
  let ?n = "card (set (takeWhile (\<lambda>y. y \<noteq> p) (map product_description data)))"
  have "p \<in> set (map product_description data)"
    using assms by simp
  then have "?n < length (products data) \<and> products data ! ?n = p"
    unfolding products_def by (rule new_Set_index)
  then show ?thesis
    using obj_get_product_nth [of ?n data] by simp
qed

section \<open>The encoder, row by row\<close>

lemma array_get_salesDates:
  "i < length data \<Longrightarrow>
   array_get (salesDates h data) i =
     (case Date_getMonth h (sales_date (data ! i)) of Some m \<Rightarrow> Val (m + 1) | None \<Rightarrow> Null)"
  by (simp add: array_get_def salesDates_def)

lemma mapped_inputs_map:
  "mapped_inputs h data = map (encode_row h (build_productMapping data)) data"
  unfolding mapped_inputs_def
  by (rule map_index_cong_map)
     (simp add: array_get_salesDates encode_row_def split: option.splits)

lemma filter_encode_row:
  "filter (\<lambda>input. input \<noteq> Null) (map (encode_row h pm) xs) =
   List.map_filter (spec_contribution h pm) xs"
  by (induction xs)
     (simp_all add: map_filter_simps encode_row_def spec_contribution_def obj_get_def
        split: option.splits)

lemma obj_get_record_defined:
  assumes "row \<in> set data"
  shows "obj_get (build_productMapping data) (product_description row) \<noteq> Undefined"
  using obj_get_first_appearance [of "product_description row" data] assms by simp

lemma filter_encode_row_dated:
  assumes "\<And>row. row \<in> set xs \<Longrightarrow> obj_get pm (product_description row) \<noteq> Undefined"
  shows "filter (\<lambda>input. input \<noteq> Null) (map (encode_row h pm) xs) =
         List.map_filter (spec_dated_feature h pm) xs"
  using assms
  by (induction xs)
     (simp_all add: map_filter_simps encode_row_def spec_dated_feature_def split: option.splits)

lemma map_update_same:
  assumes "i < length xs" and "f x = f (xs ! i)"
  shows "map f (xs[i := x]) = map f xs"
  using assms by (simp add: map_update list_update_same_conv)

lemma same_mapping_update:
  "build_productMapping (data[i := (data ! i)\<lparr> quantity_sold := q \<rparr>]) = build_productMapping data"
proof (cases "i < length data")
  case True
  then have "map product_description (data[i := (data ! i)\<lparr> quantity_sold := q \<rparr>]) =
             map product_description data"
    by (rule map_update_same) simp
  then show ?thesis
    by (simp add: build_productMapping_def products_def)
next
  case False
  then show ?thesis by (simp add: list_update_beyond not_less)
qed

lemma same_rows_update:
  "map (encode_row h pm) (data[i := (data ! i)\<lparr> quantity_sold := q \<rparr>]) =
   map (encode_row h pm) data"
proof (cases "i < length data")
  case True
  then show ?thesis
    by (rule map_update_same) (simp add: encode_row_def split: option.splits)
next
  case False
  then show ?thesis by (simp add: list_update_beyond not_less)
qed

section \<open>The forecast loop\<close>

lemma forecast_unfold:
  "forecast h m pm s =
     foldl (\<lambda>acc i. foldl (predict_one h m pm i) acc (Object_keys pm)) ([], s) [1, 2, 3, 4, 5, 6]"
proof -
  have step: "\<And>i acc. i \<le> 6 \<Longrightarrow> forecast_from h m pm i acc =
      forecast_from h m pm (Suc i) (foldl (predict_one h m pm i) acc (Object_keys pm))"
    by (subst forecast_from.simps) simp
  have stop: "\<And>acc. forecast_from h m pm 7 acc = acc"
    by (subst forecast_from.simps) simp
  have "forecast_from h m pm (Suc 0) ([], s) =
        forecast_from h m pm 7 (foldl (\<lambda>acc i. foldl (predict_one h m pm i) acc (Object_keys pm)) ([], s) [Suc 0, 2, 3, 4, 5, 6])"
    by (simp add: step eval_nat_numeral)
  then show ?thesis
    by (simp add: forecast_def stop)
qed

lemma fst_predict_one:
  "fst (predict_one h m pm i acc p) = fst acc @ [forecast_point h m pm i p]"
  by (simp add: predict_one_def forecast_point_def Let_def split: prod.splits)

lemma fst_month:
  "fst (foldl (predict_one h m pm i) acc ks) = fst acc @ map (forecast_point h m pm i) ks"
  by (induction ks arbitrary: acc) (simp_all add: fst_predict_one)

lemma fst_months:
  "fst (foldl (\<lambda>acc i. foldl (predict_one h m pm i) acc ks) acc is) =
   fst acc @ concat (map (\<lambda>i. map (forecast_point h m pm i) ks) is)"
  by (induction "is" arbitrary: acc) (simp_all add: fst_month)

lemma forecast_points:
  "fst (forecast h m pm s) =
   concat (map (\<lambda>i. map (forecast_point h m pm i) (Object_keys pm)) [1, 2, 3, 4, 5, 6])"
  by (simp only: forecast_unfold fst_months fst_conv append_Nil)

lemma forecast_order:
  "map (\<lambda>q. (sales_month q, product q)) (fst (forecast h m pm s)) = forecast_grid (Object_keys pm)"
  by (simp add: forecast_points forecast_grid_def forecast_point_def map_concat comp_def)

lemma length_forecast_grid: "length (forecast_grid ks) = 6 * length ks"
  by (simp add: forecast_grid_def)

lemma length_forecast: "length (fst (forecast h m pm s)) = 6 * length (Object_keys pm)"
  using arg_cong [OF forecast_order, of length h m pm s] by (simp add: length_forecast_grid)

lemma set_Object_keys: "set (Object_keys pm) = fst ` set pm"
  by (auto simp: Object_keys_def)

lemma length_Object_keys: "length (Object_keys pm) = length pm"
  using sum_length_filter_compl [of is_array_index "map fst pm"] by (simp add: Object_keys_def)

lemma distinct_Object_keys: "distinct (map fst pm) \<Longrightarrow> distinct (Object_keys pm)"
  by (auto simp: Object_keys_def)

lemma Object_keys_no_index:
  assumes "\<And>k. k \<in> fst ` set pm \<Longrightarrow> \<not> is_array_index k"
  shows "Object_keys pm = map fst pm"
proof -
  have "filter is_array_index (map fst pm) = []"
    using assms by (auto simp: filter_empty_conv)
  moreover have "filter (\<lambda>k. \<not> is_array_index k) (map fst pm) = map fst pm"
    using assms by (auto simp: filter_id_conv)
  ultimately show ?thesis by (simp add: Object_keys_def)
qed

lemma set_forecast_grid: "set (forecast_grid ks) = {1, 2, 3, 4, 5, 6} \<times> set ks"
  by (auto simp: forecast_grid_def)

lemma snd_forecast_grid: "snd ` set (forecast_grid ks) = set ks"
  by (simp add: set_forecast_grid)

lemma fst_forecast_grid: "ks \<noteq> [] \<Longrightarrow> fst ` set (forecast_grid ks) = {1, 2, 3, 4, 5, 6}"
  by (simp add: set_forecast_grid)

lemma forecast_products: "product ` set (fst (forecast h m pm s)) = set (Object_keys pm)"
proof -
  have "product ` set (fst (forecast h m pm s)) =
        snd ` set (map (\<lambda>q. (sales_month q, product q)) (fst (forecast h m pm s)))"
    by (simp add: image_image)
  then show ?thesis
    by (simp only: forecast_order snd_forecast_grid)
qed

lemma forecast_months:
  "sales_month ` set (fst (forecast h m pm s)) = fst ` set (forecast_grid (Object_keys pm))"
proof -
  have "sales_month ` set (fst (forecast h m pm s)) =
        fst ` set (map (\<lambda>q. (sales_month q, product q)) (fst (forecast h m pm s)))"
    by (simp add: image_image)
  then show ?thesis
    by (simp only: forecast_order)
qed

lemma months_1_to_6: "{1, 2, 3, 4, 5, 6} = {1..6::nat}"
  by auto

section \<open>Properties of the encoder\<close>

text \<open>
  C1. The specification asks that features and targets have the same length for every
  input, a record with an unparseable date being dropped from both lists. The encoder does
  not do this: the targets are filtered against the features list after the rejected
  entries have been removed from it, so the test \<^verbatim>\<open>inputs[i] !== null\<close> is true at every
  index and every quantity is kept. The targets are the quantities of all records, and
  for the three records below, the second with an unparseable date, there are two
  features and three targets.
\<close>

theorem targets_never_dropped:
  "outputs (preprocessData h (Some data)) = quantities h data \<and>
   length (inputs (preprocessData ref_host
      (Some [sale ''2024-03-01'' ''A'' ''5'', sale ''bad-date'' ''B'' ''3'',
             sale ''2024-04-02'' ''A'' ''7'']))) = 2 \<and>
   length (outputs (preprocessData ref_host
      (Some [sale ''2024-03-01'' ''A'' ''5'', sale ''bad-date'' ''B'' ''3'',
             sale ''2024-04-02'' ''A'' ''7'']))) = 3"
proof -
  have general: "outputs (preprocessData h (Some data)) = quantities h data"
  proof (cases "data = []")
    case True
    then show ?thesis by (simp add: preprocessData_def quantities_def)
  next
    case False
    then show ?thesis by (rule outputs_unfiltered)
  qed
  have features: "length (inputs (preprocessData ref_host
      (Some [sale ''2024-03-01'' ''A'' ''5'', sale ''bad-date'' ''B'' ''3'',
             sale ''2024-04-02'' ''A'' ''7'']))) = 2"
    by code_simp
  have targets: "length (outputs (preprocessData ref_host
      (Some [sale ''2024-03-01'' ''A'' ''5'', sale ''bad-date'' ''B'' ''3'',
             sale ''2024-04-02'' ''A'' ''7'']))) = 3"
    by code_simp
  from general features targets show ?thesis by simp
qed

text \<open>
  C2. On the two records of the specification's example the encoder returns the single
  feature vector \<open>[1, 0]\<close>, as specified, but two targets, 5 and 3: the quantity of the
  record with the unparseable date is not excluded.
\<close>

theorem inclusion_example:
  "preprocessData ref_host
     (Some [sale ''2024-01-15'' ''A'' ''5'', sale ''bad-date'' ''B'' ''3'']) =
   \<lparr> inputs = [Val [Val 1, Val 0]], outputs = [Fin 5, Fin 3],
     productMapping = [(''A'', 0), (''B'', 1)] \<rparr>"
  by code_simp

text \<open>
  C7. For an undefined and for an empty record sequence the encoder returns empty
  features, empty targets and an empty product mapping, and the pipeline returns early:
  no tensor is created and no training or inference call is made.
\<close>

theorem empty_input_short_circuit:
  "preprocessData h None = \<lparr> inputs = [], outputs = [], productMapping = [] \<rparr> \<and>
   preprocessData h (Some []) = \<lparr> inputs = [], outputs = [], productMapping = [] \<rparr> \<and>
   trainAndPredict h None = (Halted, tf_init) \<and>
   trainAndPredict h (Some []) = (Halted, tf_init) \<and>
   calls tf_init = [] \<and> live tf_init = []"
  by (simp add: preprocessData_def trainAndPredict_def tf_init_def)

text \<open>
  C4. A record contributes a feature vector exactly when its date parses and its product
  has an index, and the feature vectors keep the order of the records: the features are
  the contributions of the records, in input order, under the specification's inclusion
  rule. Month extraction is total: an unparseable date gives the sentinel \<^verbatim>\<open>null\<close> at the
  record's position and nothing else happens.
\<close>

theorem inputs_inclusion:
  "inputs (preprocessData h (Some data)) =
     List.map_filter (spec_contribution h (productMapping (preprocessData h (Some data)))) data
   \<and> (\<forall>pm row. spec_contribution h pm row \<noteq> None \<longleftrightarrow>
         Date_getMonth h (sales_date row) \<noteq> None \<and>
         obj_get pm (product_description row) \<noteq> Undefined)
   \<and> length (salesDates h data) = length data
   \<and> (\<forall>i < length data.
         (salesDates h data ! i = Null) = (Date_getMonth h (sales_date (data ! i)) = None))"
proof -
  have a: "inputs (preprocessData h (Some data)) =
     List.map_filter (spec_contribution h (productMapping (preprocessData h (Some data)))) data"
    by (simp only: inputs_filtered productMapping_built mapped_inputs_map filter_encode_row)
  have b: "\<forall>pm row. spec_contribution h pm row \<noteq> None \<longleftrightarrow>
         Date_getMonth h (sales_date row) \<noteq> None \<and>
         obj_get pm (product_description row) \<noteq> Undefined"
    by (simp add: spec_contribution_def obj_get_def split: option.splits)
  have c: "length (salesDates h data) = length data"
    by (simp add: salesDates_def)
  have d: "\<forall>i < length data.
         (salesDates h data ! i = Null) = (Date_getMonth h (sales_date (data ! i)) = None)"
    by (simp add: salesDates_def split: option.splits)
  from a b c d show ?thesis by blast
qed

theorem inputs_inclusion_witness:
  "inputs (preprocessData ref_host
     (Some [sale ''2024-01-15'' ''A'' ''5'', sale ''bad-date'' ''B'' ''3'',
            sale ''2024-03-09'' ''B'' ''2''])) =
     [Val [Val 1, Val 0], Val [Val 3, Val 1]]
   \<and> (1::nat) < length [sale ''2024-01-15'' ''A'' ''5'', sale ''bad-date'' ''B'' ''3'',
                        sale ''2024-03-09'' ''B'' ''2'']
   \<and> salesDates ref_host [sale ''2024-01-15'' ''A'' ''5'', sale ''bad-date'' ''B'' ''3'',
                           sale ''2024-03-09'' ''B'' ''2''] ! 1 = Null
   \<and> Date_getMonth ref_host ''bad-date'' = None"
proof -
  let ?ex = "[sale ''2024-01-15'' ''A'' ''5'', sale ''bad-date'' ''B'' ''3'',
              sale ''2024-03-09'' ''B'' ''2'']"
  have contributions:
    "List.map_filter (spec_contribution ref_host (productMapping (preprocessData ref_host (Some ?ex)))) ?ex
       = [Val [Val 1, Val 0], Val [Val 3, Val 1]]"
    by code_simp
  have date: "Date_getMonth ref_host ''bad-date'' = None"
    by code_simp
  from inputs_inclusion [of ref_host ?ex] contributions date show ?thesis
    by simp
qed

text \<open>
  C10. The product mapping is built from the descriptions of the batch itself, so the
  lookup of a record's description is always defined: the test on the product index never
  rejects a record. A record is excluded exactly when its date does not parse, and the
  features are the records with a parseable date, in input order.
\<close>

theorem product_lookup_defined:
  "(\<forall>row \<in> set data.
      obj_get (productMapping (preprocessData h (Some data))) (product_description row)
        \<noteq> Undefined)
   \<and> (\<forall>i < length data.
         (mapped_inputs h data ! i = Null) = (Date_getMonth h (sales_date (data ! i)) = None))
   \<and> inputs (preprocessData h (Some data)) =
       List.map_filter (spec_dated_feature h (productMapping (preprocessData h (Some data)))) data"
proof -
  have a: "\<forall>row \<in> set data.
      obj_get (productMapping (preprocessData h (Some data))) (product_description row)
        \<noteq> Undefined"
    by (simp add: productMapping_built obj_get_record_defined)
  have b: "\<forall>i < length data.
         (mapped_inputs h data ! i = Null) = (Date_getMonth h (sales_date (data ! i)) = None)"
    by (simp add: mapped_inputs_map encode_row_def obj_get_record_defined split: option.splits)
  have c: "inputs (preprocessData h (Some data)) =
       List.map_filter (spec_dated_feature h (productMapping (preprocessData h (Some data)))) data"
    by (simp only: inputs_filtered productMapping_built mapped_inputs_map)
       (rule filter_encode_row_dated, rule obj_get_record_defined)
  from a b c show ?thesis by blast
qed

theorem product_lookup_defined_witness:
  "sale ''bad-date'' ''B'' ''3'' \<in> set [sale ''2024-02-11'' ''A'' ''5'', sale ''bad-date'' ''B'' ''3'']
   \<and> obj_get (productMapping (preprocessData ref_host
         (Some [sale ''2024-02-11'' ''A'' ''5'', sale ''bad-date'' ''B'' ''3''])))
         (product_description (sale ''bad-date'' ''B'' ''3'')) = Val 1
   \<and> (1::nat) < length [sale ''2024-02-11'' ''A'' ''5'', sale ''bad-date'' ''B'' ''3'']
   \<and> mapped_inputs ref_host [sale ''2024-02-11'' ''A'' ''5'', sale ''bad-date'' ''B'' ''3''] ! 1
       = Null
   \<and> inputs (preprocessData ref_host
         (Some [sale ''2024-02-11'' ''A'' ''5'', sale ''bad-date'' ''B'' ''3''])) =
       [Val [Val 2, Val 0]]"
proof -
  let ?ex = "[sale ''2024-02-11'' ''A'' ''5'', sale ''bad-date'' ''B'' ''3'']"
  have lookup: "obj_get (productMapping (preprocessData ref_host (Some ?ex))) ''B'' = Val 1"
    by code_simp
  have date: "Date_getMonth ref_host ''bad-date'' = None"
    by code_simp
  have features:
    "List.map_filter (spec_dated_feature ref_host (productMapping (preprocessData ref_host (Some ?ex)))) ?ex
       = [Val [Val 2, Val 0]]"
    by code_simp
  from product_lookup_defined [of ?ex ref_host] lookup date features show ?thesis
    by simp
qed

text \<open>
  C5. A quantity that does not parse as a number becomes the target 0 and the record is
  not excluded for it: the targets have one entry for each record, the entry of such a
  record is 0, and the features do not depend on the quantity text of the record. In
  particular \<^verbatim>\<open>parseFloat("not-a-number")\<close> is \<^verbatim>\<open>NaN\<close>, so such a record has the target 0.
\<close>

theorem quantity_coercion:
  assumes "i < length data"
    and "parseFloat h (quantity_sold (data ! i)) = NaN"
  shows "length (outputs (preprocessData h (Some data))) = length data
    \<and> outputs (preprocessData h (Some data)) ! i = Fin 0
    \<and> inputs (preprocessData h (Some (data[i := (data ! i)\<lparr> quantity_sold := q \<rparr>]))) =
        inputs (preprocessData h (Some data))
    \<and> js_parseFloat ''not-a-number'' = NaN"
proof -
  have nonempty: "data \<noteq> []"
    using assms(1) by auto
  have len: "length (outputs (preprocessData h (Some data))) = length data"
    by (simp add: outputs_unfiltered [OF nonempty] quantities_def)
  have zero: "outputs (preprocessData h (Some data)) ! i = Fin 0"
    using assms by (simp add: outputs_unfiltered [OF nonempty] quantities_def or_zero_def)
  have same: "inputs (preprocessData h (Some (data[i := (data ! i)\<lparr> quantity_sold := q \<rparr>]))) =
        inputs (preprocessData h (Some data))"
    by (simp only: inputs_filtered mapped_inputs_map)
       (simp add: same_mapping_update same_rows_update)
  have nan: "js_parseFloat ''not-a-number'' = NaN"
    by code_simp
  from len zero same nan show ?thesis by blast
qed

theorem quantity_coercion_witness:
  "(0::nat) < length [sale ''2024-05-20'' ''A'' ''not-a-number'']
   \<and> parseFloat ref_host (quantity_sold ([sale ''2024-05-20'' ''A'' ''not-a-number''] ! 0)) = NaN
   \<and> outputs (preprocessData ref_host (Some [sale ''2024-05-20'' ''A'' ''not-a-number'']))
       = [Fin 0]
   \<and> inputs (preprocessData ref_host (Some [sale ''2024-05-20'' ''A'' ''not-a-number'']))
       = [Val [Val 5, Val 0]]"
proof -
  let ?ex = "[sale ''2024-05-20'' ''A'' ''not-a-number'']"
  have nan: "parseFloat ref_host ''not-a-number'' = NaN"
    by code_simp
  have features: "inputs (preprocessData ref_host (Some ?ex)) = [Val [Val 5, Val 0]]"
    by code_simp
  have lt: "(0::nat) < length ?ex"
    by simp
  have hyp: "parseFloat ref_host (quantity_sold (?ex ! 0)) = NaN"
    using nan by simp
  note coerced = quantity_coercion [OF lt hyp]
  have "length (outputs (preprocessData ref_host (Some ?ex))) = length ?ex"
    using coerced by blast
  then obtain y where y: "outputs (preprocessData ref_host (Some ?ex)) = [y]"
    by (auto simp: length_Suc_conv)
  have "outputs (preprocessData ref_host (Some ?ex)) ! 0 = Fin 0"
    using coerced by blast
  then have targets: "outputs (preprocessData ref_host (Some ?ex)) = [Fin 0]"
    using y by simp
  from lt hyp targets features show ?thesis
    by (intro conjI)
qed

text \<open>
  C6. The product mapping gives each description of the batch the number of distinct
  descriptions that appear before its first appearance, which is its zero-based rank in
  first-appearance order; a description outside the batch has no index; the mapping is a
  bijection between the descriptions of the batch and the numbers below their count; and
  two records with the same description have the same index.
\<close>

theorem product_index_first_appearance:
  "(\<forall>p \<in> product_description ` set data.
      obj_get (productMapping (preprocessData h (Some data))) p =
        Val (card (set (takeWhile (\<lambda>y. y \<noteq> p) (map product_description data)))))
   \<and> (\<forall>p. p \<notin> product_description ` set data \<longrightarrow>
        obj_get (productMapping (preprocessData h (Some data))) p = Undefined)
   \<and> bij_betw (obj_get (productMapping (preprocessData h (Some data))))
        (product_description ` set data)
        (Val ` {..<card (product_description ` set data)})
   \<and> (\<forall>r1 \<in> set data. \<forall>r2 \<in> set data.
        product_description r1 = product_description r2 \<longrightarrow>
        obj_get (productMapping (preprocessData h (Some data))) (product_description r1) =
        obj_get (productMapping (preprocessData h (Some data))) (product_description r2))"
proof -
  let ?pm = "build_productMapping data"
  let ?ps = "products data"
  have len: "length ?ps = card (product_description ` set data)"
    by (simp add: products_def length_new_Set)
  have a: "\<forall>p \<in> product_description ` set data.
      obj_get ?pm p = Val (card (set (takeWhile (\<lambda>y. y \<noteq> p) (map product_description data))))"
    using obj_get_first_appearance by blast
  have b: "\<forall>p. p \<notin> product_description ` set data \<longrightarrow> obj_get ?pm p = Undefined"
    by (simp add: obj_get_unknown set_products)
  have inj: "inj_on (obj_get ?pm) (set ?ps)"
  proof (rule inj_onI)
    fix p q
    assume p: "p \<in> set ?ps" and q: "q \<in> set ?ps" and eq: "obj_get ?pm p = obj_get ?pm q"
    obtain i where i: "i < length ?ps" "?ps ! i = p"
      using p by (auto simp: in_set_conv_nth)
    obtain j where j: "j < length ?ps" "?ps ! j = q"
      using q by (auto simp: in_set_conv_nth)
    have "Val i = obj_get ?pm p"
      using obj_get_product_nth [OF i(1)] i(2) by simp
    also have "\<dots> = Val j"
      using obj_get_product_nth [OF j(1)] j(2) eq by simp
    finally show "p = q"
      using i j by simp
  qed
  have img: "obj_get ?pm ` set ?ps = Val ` {..<length ?ps}"
  proof (rule set_eqI)
    fix v
    show "v \<in> obj_get ?pm ` set ?ps \<longleftrightarrow> v \<in> Val ` {..<length ?ps}"
    proof
      assume "v \<in> obj_get ?pm ` set ?ps"
      then obtain i where "i < length ?ps" "v = obj_get ?pm (?ps ! i)"
        by (auto simp: in_set_conv_nth)
      then show "v \<in> Val ` {..<length ?ps}"
        by (simp add: obj_get_product_nth)
    next
      assume "v \<in> Val ` {..<length ?ps}"
      then obtain i where i: "i < length ?ps" "v = Val i"
        by auto
      then have "v = obj_get ?pm (?ps ! i)"
        by (simp add: obj_get_product_nth)
      then show "v \<in> obj_get ?pm ` set ?ps"
        using i(1) by simp
    qed
  qed
  have c: "bij_betw (obj_get ?pm) (product_description ` set data)
        (Val ` {..<card (product_description ` set data)})"
    using inj img by (simp add: bij_betw_def set_products len)
  from a b c show ?thesis
    by (simp add: productMapping_built)
qed

theorem product_index_first_appearance_witness:
  "''C'' \<in> product_description ` set [sale ''2024-01-15'' ''A'' ''5'', sale ''2024-01-16'' ''B'' ''3'',
                                     sale ''2024-02-01'' ''A'' ''1'', sale ''2024-02-02'' ''C'' ''4'']
   \<and> obj_get (productMapping (preprocessData ref_host
        (Some [sale ''2024-01-15'' ''A'' ''5'', sale ''2024-01-16'' ''B'' ''3'',
               sale ''2024-02-01'' ''A'' ''1'', sale ''2024-02-02'' ''C'' ''4'']))) ''C'' = Val 2
   \<and> ''Z'' \<notin> product_description ` set [sale ''2024-01-15'' ''A'' ''5'', sale ''2024-01-16'' ''B'' ''3'',
                                     sale ''2024-02-01'' ''A'' ''1'', sale ''2024-02-02'' ''C'' ''4'']
   \<and> obj_get (productMapping (preprocessData ref_host
        (Some [sale ''2024-01-15'' ''A'' ''5'', sale ''2024-01-16'' ''B'' ''3'',
               sale ''2024-02-01'' ''A'' ''1'', sale ''2024-02-02'' ''C'' ''4'']))) ''Z'' = Undefined"
proof -
  let ?ex = "[sale ''2024-01-15'' ''A'' ''5'', sale ''2024-01-16'' ''B'' ''3'',
              sale ''2024-02-01'' ''A'' ''1'', sale ''2024-02-02'' ''C'' ''4'']"
  have rank: "card (set (takeWhile (\<lambda>y. y \<noteq> ''C'') (map product_description ?ex))) = 2"
    by code_simp
  have known: "''C'' \<in> product_description ` set ?ex"
    by simp
  have unknown: "''Z'' \<notin> product_description ` set ?ex"
    by simp
  note index = product_index_first_appearance [of ?ex ref_host]
  have "\<forall>p \<in> product_description ` set ?ex.
      obj_get (productMapping (preprocessData ref_host (Some ?ex))) p =
        Val (card (set (takeWhile (\<lambda>y. y \<noteq> p) (map product_description ?ex))))"
    using index by (rule conjunct1)
  then have "obj_get (productMapping (preprocessData ref_host (Some ?ex))) ''C'' =
        Val (card (set (takeWhile (\<lambda>y. y \<noteq> ''C'') (map product_description ?ex))))"
    using known by (rule bspec)
  then have third: "obj_get (productMapping (preprocessData ref_host (Some ?ex))) ''C'' = Val 2"
    by (simp only: rank)
  have "\<forall>p. p \<notin> product_description ` set ?ex \<longrightarrow>
        obj_get (productMapping (preprocessData ref_host (Some ?ex))) p = Undefined"
    using index by (rule conjunct2 [THEN conjunct1])
  then have none: "obj_get (productMapping (preprocessData ref_host (Some ?ex))) ''Z'' = Undefined"
    using unknown by blast
  from known third unknown none show ?thesis
    by (intro conjI)
qed

text \<open>
  C8. When the encoder returns no features or no targets, the pipeline returns before it
  creates a tensor, trains or predicts, and nothing is handed to the chart.
\<close>

theorem empty_training_data_halts:
  assumes "inputs (preprocessData h d) = [] \<or> outputs (preprocessData h d) = []"
  shows "trainAndPredict h d = (Halted, tf_init) \<and> calls (snd (trainAndPredict h d)) = []"
  using assms by (auto simp: trainAndPredict_def tf_init_def)

theorem empty_training_data_halts_witness:
  "inputs (preprocessData ref_host (Some [sale ''bad-date'' ''B'' ''3''])) = []
   \<and> trainAndPredict ref_host (Some [sale ''bad-date'' ''B'' ''3'']) = (Halted, tf_init)
   \<and> calls (snd (trainAndPredict ref_host (Some [sale ''bad-date'' ''B'' ''3'']))) = []"
proof -
  have empty: "inputs (preprocessData ref_host (Some [sale ''bad-date'' ''B'' ''3''])) = []"
    by code_simp
  from empty_training_data_halts [of ref_host "Some [sale ''bad-date'' ''B'' ''3'']"] empty
  show ?thesis by (simp add: tf_init_def)
qed

section \<open>Properties of the forecaster\<close>

text \<open>
  C3, as stated, fails. The product mapping is a plain object and the forecaster walks
  \<^verbatim>\<open>Object.keys\<close> of it, which lists keys that are array indices first, in ascending
  numeric order. For a batch whose descriptions are \<open>2\<close> and then \<open>1\<close> the insertion order
  is \<open>2, 1\<close>, the forecast of each month lists \<open>1\<close> before \<open>2\<close>, and the output is not the
  grid of the months over the insertion order.
\<close>

theorem forecast_insertion_order_counterexample:
  "map fst (productMapping (preprocessData ref_host
      (Some [sale ''2024-01-15'' ''2'' ''5'', sale ''2024-02-15'' ''1'' ''3'']))) = [''2'', ''1'']
   \<and> map product (take 2 (fst (forecast ref_host ()
        (productMapping (preprocessData ref_host
          (Some [sale ''2024-01-15'' ''2'' ''5'', sale ''2024-02-15'' ''1'' ''3''])))
        tf_init))) = [''1'', ''2'']
   \<and> map (\<lambda>q. (sales_month q, product q)) (fst (forecast ref_host ()
        (productMapping (preprocessData ref_host
          (Some [sale ''2024-01-15'' ''2'' ''5'', sale ''2024-02-15'' ''1'' ''3''])))
        tf_init))
      \<noteq> forecast_grid (map fst (productMapping (preprocessData ref_host
          (Some [sale ''2024-01-15'' ''2'' ''5'', sale ''2024-02-15'' ''1'' ''3'']))))"
proof -
  let ?cx = "[sale ''2024-01-15'' ''2'' ''5'', sale ''2024-02-15'' ''1'' ''3'']"
  let ?pm = "productMapping (preprocessData ref_host (Some ?cx))"
  have created: "map fst ?pm = [''2'', ''1'']"
    by code_simp
  have first: "map product (take 2 (fst (forecast ref_host () ?pm tf_init))) = [''1'', ''2'']"
    by code_simp
  have emitted: "map (\<lambda>q. (sales_month q, product q)) (fst (forecast ref_host () ?pm tf_init)) =
      [(1, ''1''), (1, ''2''), (2, ''1''), (2, ''2''), (3, ''1''), (3, ''2''),
       (4, ''1''), (4, ''2''), (5, ''1''), (5, ''2''), (6, ''1''), (6, ''2'')]"
    by code_simp
  have "hd (forecast_grid [''2'', ''1'']) = (1, ''2'')"
    by (simp add: forecast_grid_def)
  then have "forecast_grid [''2'', ''1''] \<noteq>
      [(1, ''1''), (1, ''2''), (2, ''1''), (2, ''2''), (3, ''1''), (3, ''2''),
       (4, ''1''), (4, ''2''), (5, ''1''), (5, ''2''), (6, ''1''), (6, ''2'')]"
    by auto
  then have differs: "map (\<lambda>q. (sales_month q, product q)) (fst (forecast ref_host () ?pm tf_init))
      \<noteq> forecast_grid (map fst ?pm)"
    by (simp only: created emitted) simp
  from created first differs show ?thesis
    by (intro conjI)
qed

text \<open>
  C3, amended. For every trained model and every batch with \<open>N\<close> distinct descriptions
  the forecaster emits exactly \<open>6 * N\<close> points: months 1 to 6 ascending and, within each
  month, the products in the key order of the mapping, that is the descriptions that are
  array indices in ascending numeric order followed by the other descriptions in
  insertion order. When no description is an array index this is the insertion order.
  The products of the points are exactly the descriptions of the batch, and for a
  non-empty batch the months are exactly 1 to 6.
\<close>

theorem forecast_shape:
  "map (\<lambda>q. (sales_month q, product q))
       (fst (forecast h m (productMapping (preprocessData h (Some data))) s)) =
     forecast_grid (Object_keys (productMapping (preprocessData h (Some data))))
   \<and> length (fst (forecast h m (productMapping (preprocessData h (Some data))) s)) =
       6 * card (product_description ` set data)
   \<and> map fst (productMapping (preprocessData h (Some data))) = products data
   \<and> Object_keys (productMapping (preprocessData h (Some data))) =
       sort_key digits_val (filter is_array_index (products data)) @
       filter (\<lambda>k. \<not> is_array_index k) (products data)
   \<and> ((\<forall>row \<in> set data. \<not> is_array_index (product_description row)) \<longrightarrow>
       Object_keys (productMapping (preprocessData h (Some data))) = products data)
   \<and> product ` set (fst (forecast h m (productMapping (preprocessData h (Some data))) s)) =
       product_description ` set data
   \<and> (data \<noteq> [] \<longrightarrow>
       sales_month ` set (fst (forecast h m (productMapping (preprocessData h (Some data))) s)) =
       {1..6})"
proof -
  let ?pm = "build_productMapping data"
  have order: "map (\<lambda>q. (sales_month q, product q)) (fst (forecast h m ?pm s)) =
     forecast_grid (Object_keys ?pm)"
    by (rule forecast_order)
  have count: "length (fst (forecast h m ?pm s)) = 6 * card (product_description ` set data)"
    by (simp add: length_forecast length_Object_keys build_productMapping_zip
          products_def length_new_Set)
  have created: "map fst ?pm = products data"
    by (rule keys_productMapping)
  have keys: "Object_keys ?pm =
       sort_key digits_val (filter is_array_index (products data)) @
       filter (\<lambda>k. \<not> is_array_index k) (products data)"
    by (simp add: Object_keys_def keys_productMapping)
  have plain: "(\<forall>row \<in> set data. \<not> is_array_index (product_description row)) \<longrightarrow>
       Object_keys ?pm = products data"
  proof
    assume no_index: "\<forall>row \<in> set data. \<not> is_array_index (product_description row)"
    have "fst ` set ?pm = product_description ` set data"
      using set_products [of data] by (simp add: keys_productMapping [symmetric])
    then have "\<And>k. k \<in> fst ` set ?pm \<Longrightarrow> \<not> is_array_index k"
      using no_index by auto
    then have "Object_keys ?pm = map fst ?pm"
      by (rule Object_keys_no_index)
    then show "Object_keys ?pm = products data"
      by (simp add: keys_productMapping)
  qed
  have key_set: "set (Object_keys ?pm) = product_description ` set data"
    using set_products [of data]
    by (simp add: set_Object_keys keys_productMapping [symmetric])
  have prods: "product ` set (fst (forecast h m ?pm s)) = product_description ` set data"
    by (simp only: forecast_products key_set)
  have months: "data \<noteq> [] \<longrightarrow> sales_month ` set (fst (forecast h m ?pm s)) = {1..6}"
  proof
    assume "data \<noteq> []"
    then have "Object_keys ?pm \<noteq> []"
      using key_set by auto
    then have "fst ` set (forecast_grid (Object_keys ?pm)) = {1, 2, 3, 4, 5, 6}"
      by (rule fst_forecast_grid)
    then show "sales_month ` set (fst (forecast h m ?pm s)) = {1..6}"
      by (simp only: forecast_months months_1_to_6)
  qed
  from order count created keys plain prods months show ?thesis
    by (simp only: productMapping_built)
qed

theorem forecast_shape_witness:
  "\<not> is_array_index ''A'' \<and> \<not> is_array_index ''B'' \<and> \<not> is_array_index ''C''
   \<and> [sale ''2024-01-15'' ''A'' ''5'', sale ''2024-01-16'' ''B'' ''3'',
       sale ''2024-02-01'' ''A'' ''1'', sale ''2024-02-02'' ''C'' ''4''] \<noteq> []
   \<and> map (\<lambda>q. (sales_month q, product q))
       (fst (forecast ref_host () (productMapping (preprocessData ref_host
          (Some [sale ''2024-01-15'' ''A'' ''5'', sale ''2024-01-16'' ''B'' ''3'',
                 sale ''2024-02-01'' ''A'' ''1'', sale ''2024-02-02'' ''C'' ''4''])))
          tf_init)) = forecast_grid [''A'', ''B'', ''C'']
   \<and> length (fst (forecast ref_host () (productMapping (preprocessData ref_host
          (Some [sale ''2024-01-15'' ''A'' ''5'', sale ''2024-01-16'' ''B'' ''3'',
                 sale ''2024-02-01'' ''A'' ''1'', sale ''2024-02-02'' ''C'' ''4''])))
          tf_init)) = 18
   \<and> sales_month ` set (fst (forecast ref_host () (productMapping (preprocessData ref_host
          (Some [sale ''2024-01-15'' ''A'' ''5'', sale ''2024-01-16'' ''B'' ''3'',
                 sale ''2024-02-01'' ''A'' ''1'', sale ''2024-02-02'' ''C'' ''4''])))
          tf_init)) = {1..6}"
proof -
  let ?ex = "[sale ''2024-01-15'' ''A'' ''5'', sale ''2024-01-16'' ''B'' ''3'',
              sale ''2024-02-01'' ''A'' ''1'', sale ''2024-02-02'' ''C'' ''4'']"
  let ?pm = "productMapping (preprocessData ref_host (Some ?ex))"
  have a: "\<not> is_array_index ''A''" by code_simp
  have b: "\<not> is_array_index ''B''" by code_simp
  have c: "\<not> is_array_index ''C''" by code_simp
  have plain: "\<forall>row \<in> set ?ex. \<not> is_array_index (product_description row)"
    using a b c by simp
  have nonempty: "?ex \<noteq> []"
    by simp
  have insertion: "products ?ex = [''A'', ''B'', ''C'']"
    by code_simp
  have distinct3: "card (product_description ` set ?ex) = 3"
    by code_simp
  note shape = forecast_shape [of ref_host "()" ?ex tf_init]
  have "Object_keys ?pm = products ?ex"
    using shape plain by blast
  then have keys: "Object_keys ?pm = [''A'', ''B'', ''C'']"
    by (simp only: insertion)
  have "map (\<lambda>q. (sales_month q, product q)) (fst (forecast ref_host () ?pm tf_init)) =
     forecast_grid (Object_keys ?pm)"
    using shape by (rule conjunct1)
  then have order: "map (\<lambda>q. (sales_month q, product q)) (fst (forecast ref_host () ?pm tf_init)) =
     forecast_grid [''A'', ''B'', ''C'']"
    by (simp only: keys)
  have "length (fst (forecast ref_host () ?pm tf_init)) = 6 * card (product_description ` set ?ex)"
    using shape by (rule conjunct2 [THEN conjunct1])
  then have "length (fst (forecast ref_host () ?pm tf_init)) = 6 * 3"
    by (simp only: distinct3)
  then have count: "length (fst (forecast ref_host () ?pm tf_init)) = 18"
    by simp
  have months: "sales_month ` set (fst (forecast ref_host () ?pm tf_init)) = {1..6}"
    using shape nonempty by blast
  from a b c nonempty order count months show ?thesis
    by (intro conjI)
qed

text \<open>
  C9. The forecast loop releases the prediction buffer of each inference call, but never
  the 1x2 input buffer it creates for the call. For a batch with one record, that is six
  inference calls, the two training tensors (0 and 1) and the six input buffers (2, 4, 6,
  8, 10 and 12) are still allocated when the predictions are handed to the chart; only
  the six prediction buffers (the odd numbers) have been released.
\<close>

theorem input_buffers_not_released:
  "snd (trainAndPredict ref_host (Some [sale ''2024-01-15'' ''A'' ''5''])) =
     \<lparr> next_id = 14,
       live = [0, 1, 2, 4, 6, 8, 10, 12],
       calls =
         [Tensor2d 0, Tensor2d 1, Fit 0 1,
          Tensor2d 2, Predict 2 3, DataSync 3, Dispose 3,
          Tensor2d 4, Predict 4 5, DataSync 5, Dispose 5,
          Tensor2d 6, Predict 6 7, DataSync 7, Dispose 7,
          Tensor2d 8, Predict 8 9, DataSync 9, Dispose 9,
          Tensor2d 10, Predict 10 11, DataSync 11, Dispose 11,
          Tensor2d 12, Predict 12 13, DataSync 13, Dispose 13] \<rparr>"
proof -
  have enc: "preprocessData ref_host (Some [sale ''2024-01-15'' ''A'' ''5'']) =
      \<lparr> inputs = [Val [Val 1, Val 0]], outputs = [Fin 5], productMapping = [(''A'', 0)] \<rparr>"
    by code_simp
  have keys: "Object_keys [(''A'', 0::nat)] = [''A'']"
    by code_simp
  have fit: "\<And>x y. model_fit ref_host x y = Some ()"
    by (simp add: ref_host_def)
  show ?thesis
    by (simp add: trainAndPredict_def enc fit forecast_unfold keys predict_one_def Let_def
          tf_tensor2d_def tf_fit_def tf_predict_def tf_dataSync_def tf_dispose_def tf_init_def)
qed

end
